theory Spec2Isabelle
  imports Main "HOL-Library.Word" "HOL-Library.Signed_Division"
begin

section \<open>Sanitizer examples: the catalog of deliberately faulty routines\<close>

text \<open>
  The program is one C++ file, \<^verbatim>\<open>examples/sanitizer_examples.cpp\<close>: sixteen
  routines, each of which performs one operation that C++ leaves undefined (or, for the
  leak, one that is defined but wasteful), and a \<^verbatim>\<open>main\<close> in which every call
  is commented out. The routines are embedded as functions on an explicit machine state.
  An operation whose behaviour C++ does not define is a guarded operation of the machine:
  it ends the routine with a \<open>fault\<close> that names the violated precondition. Every
  storage and thread operation is appended to a log of events before its guard is
  checked, so the log holds what a routine attempted, in order.
\<close>

subsection \<open>Values, storage and pointers\<close>

text \<open>The C++ type \<^verbatim>\<open>int\<close>, taken as 32 bits wide.\<close>

type_synonym cint = "32 word"

text \<open>
  \<^verbatim>\<open>INT_MAX\<close> of the C++ standard library for a 32-bit \<^verbatim>\<open>int\<close>, and the
  smallest value of the type.
\<close>

definition INT_MAX :: cint where
  "INT_MAX = 0x7FFFFFFF"

definition INT_MIN :: cint where
  "INT_MIN = 0x80000000"

datatype ctype = TInt | TChar | TFloat

fun sizeof :: "ctype \<Rightarrow> nat" where
  "sizeof TInt = 4"
| "sizeof TChar = 1"
| "sizeof TFloat = 4"

text \<open>A \<^verbatim>\<open>float\<close> is held as its IEEE-754 single-precision bit pattern.\<close>

datatype val = IntV cint | CharV char | FloatV "32 word"

text \<open>
  One element of an object: its declared type and its content, \<open>None\<close> while nothing has
  been written to it.
\<close>

type_synonym cell = "ctype \<times> val option"

record block =
  cells :: "cell list"
  live :: bool
  dynamic :: bool

type_synonym handle = nat

text \<open>A pointer is null, or names an allocation and an element of it.\<close>

datatype pointer = Null | Ptr handle nat

text \<open>\<^verbatim>\<open>p + k\<close>, the address that \<^verbatim>\<open>p[k]\<close> accesses.\<close>

fun subscript :: "pointer \<Rightarrow> nat \<Rightarrow> pointer" where
  "subscript Null k = Null"
| "subscript (Ptr h i) k = Ptr h (i + k)"

definition byte_offset :: "cell list \<Rightarrow> nat \<Rightarrow> nat" where
  "byte_offset cs i = sum_list (map (\<lambda>c. sizeof (fst c)) (take i cs))"

subsection \<open>Threads, faults, events and the machine\<close>

text \<open>The function a \<^verbatim>\<open>std::thread\<close> runs.\<close>

datatype task = Data_race_increment | Vector_race

type_synonym tid = nat

text \<open>Who performs an operation: the thread that entered \<^verbatim>\<open>main\<close>, or a spawned one.\<close>

datatype actor = Main_thread | Worker tid

datatype shared = Shared_counter | Shared_vec

text \<open>
  How a routine ends when it does what C++ leaves undefined: each fault names the
  precondition that was violated.
\<close>

datatype fault =
    Out_of_bounds handle nat nat
  | Use_after_free handle
  | Double_free handle
  | Invalid_free handle
  | Uninitialized_read handle nat
  | Null_dereference
  | Wild_pointer
  | Misaligned_access handle nat
  | Type_mismatch handle nat
  | Signed_overflow cint
  | Division_by_zero cint
  | Shift_out_of_bounds cint
  | Not_joinable nat
  | Concurrent_modification actor

text \<open>
  The log. The source calls no coordination operation (no mutex, no atomic
  read-modify-write, no fence), so the machine has none and the log has no event for one:
  a global is read with \<open>Load\<close> and written with \<open>Store\<close>, and nothing else.
\<close>

datatype event =
    Alloc handle nat
  | Release pointer
  | Write pointer
  | Read pointer
  | Divide cint cint
  | Spawn tid task
  | Join tid
  | Load actor shared
  | Store actor shared

text \<open>
  A spawned thread, between two of its atomic actions. \<^verbatim>\<open>shared_counter++\<close> is a
  read and a later write, and so is \<^verbatim>\<open>push_back\<close> on the shared vector: the
  thread holds the loop variable \<open>i\<close> and, between the read and the write, what it has
  read.
\<close>

datatype thread =
    Incrementing nat "cint option"
  | Appending nat "cint list option"
  | Finished

record machine =
  heap :: "handle \<Rightarrow> block option"
  next_handle :: handle
  out :: string
  shared_counter :: cint
  shared_vec :: "cint list"
  threads :: "thread list"
  sched :: "actor list"
  trace :: "event list"
  wraparound :: bool

text \<open>
  \<open>shared_counter\<close> and \<open>shared_vec\<close> are the two globals of the source. \<open>sched\<close>
  is the order in which the scheduler will let the threads act, an input of the run.
  \<open>wraparound\<close> is the build's treatment of signed overflow: \<open>True\<close> when signed
  arithmetic is compiled to wrap modulo \<open>2 ^ 32\<close>, \<open>False\<close> when the overflow is
  trapped.

  The state of the process when \<^verbatim>\<open>main\<close> is entered:
  \<^verbatim>\<open>int shared_counter = 0;\<close> and \<^verbatim>\<open>std::vector<int> shared_vec;\<close>.
\<close>

definition process_start :: "actor list \<Rightarrow> bool \<Rightarrow> machine" where
  "process_start sch w =
     \<lparr>heap = Map.empty, next_handle = 0, out = [], shared_counter = 0, shared_vec = [],
      threads = [], sched = sch, trace = [], wraparound = w\<rparr>"

type_synonym 'a prog = "machine \<Rightarrow> (fault + 'a) \<times> machine"

definition return :: "'a \<Rightarrow> 'a prog" where
  "return x s = (Inr x, s)"

text \<open>Sequencing: a fault ends the routine, and the state it was raised in is kept.\<close>

definition seq :: "'a prog \<Rightarrow> ('a \<Rightarrow> 'b prog) \<Rightarrow> 'b prog" where
  "seq m f s = (case m s of (Inl e, s') \<Rightarrow> (Inl e, s') | (Inr x, s') \<Rightarrow> f x s')"

definition log :: "event \<Rightarrow> unit prog" where
  "log e s = (Inr (), s\<lparr>trace := trace s @ [e]\<rparr>)"

subsection \<open>Storage operations\<close>

definition alloc :: "bool \<Rightarrow> cell list \<Rightarrow> pointer prog" where
  "alloc dyn cs s =
     (let h = next_handle s in
      (Inr (Ptr h 0),
       s\<lparr>heap := (heap s)(h \<mapsto> \<lparr>cells = cs, live = True, dynamic = dyn\<rparr>),
         next_handle := Suc h,
         trace := trace s @ [Alloc h (length cs)]\<rparr>))"

text \<open>
  \<^verbatim>\<open>T x;\<close> and \<^verbatim>\<open>T x = v;\<close> a local variable whose storage matters to the
  routine. (A local that is initialised where it is declared and whose address is never
  taken is a plain value of the embedding.)
\<close>

definition local_var :: "ctype \<Rightarrow> pointer prog" where
  "local_var t = alloc False [(t, None)]"

definition local_var_init :: "ctype \<Rightarrow> val \<Rightarrow> pointer prog" where
  "local_var_init t v = alloc False [(t, Some v)]"

text \<open>\<^verbatim>\<open>S s;\<close> a local aggregate, one element per scalar member, nothing written.\<close>

definition local_object :: "ctype list \<Rightarrow> pointer prog" where
  "local_object ts = alloc False (map (\<lambda>t. (t, None)) ts)"

text \<open>\<^verbatim>\<open>T arr[n];\<close> a local array, nothing written to it.\<close>

definition local_array :: "ctype \<Rightarrow> nat \<Rightarrow> pointer prog" where
  "local_array t n = alloc False (replicate n (t, None))"

text \<open>\<^verbatim>\<open>T arr[n] = {...};\<close> a local array with an initialiser.\<close>

definition local_array_init :: "ctype \<Rightarrow> val list \<Rightarrow> pointer prog" where
  "local_array_init t vs = alloc False (map (\<lambda>v. (t, Some v)) vs)"

text \<open>\<^verbatim>\<open>new int(v)\<close> and \<^verbatim>\<open>new int[n]\<close>.\<close>

definition new_int :: "cint \<Rightarrow> pointer prog" where
  "new_int v = alloc True [(TInt, Some (IntV v))]"

definition new_int_array :: "nat \<Rightarrow> pointer prog" where
  "new_int_array n = alloc True (replicate n (TInt, None))"

text \<open>
  \<^verbatim>\<open>delete p\<close>: deleting a null pointer does nothing; anything else must be the
  start of a dynamic allocation that has not been released yet.
\<close>

definition delete :: "pointer \<Rightarrow> unit prog" where
  "delete p =
     (case p of
        Null \<Rightarrow> return ()
      | Ptr h i \<Rightarrow>
          seq (log (Release p)) (\<lambda>_ s.
            case heap s h of
              None \<Rightarrow> (Inl Wild_pointer, s)
            | Some b \<Rightarrow>
                if \<not> live b then (Inl (Double_free h), s)
                else if \<not> dynamic b \<or> i \<noteq> 0 then (Inl (Invalid_free h), s)
                else (Inr (), s\<lparr>heap := (heap s)(h \<mapsto> b\<lparr>live := False\<rparr>)\<rparr>)))"

text \<open>
  The guards of an access to an \<^verbatim>\<open>int\<close> through a pointer, in the order a
  checker meets them: the pointer is not null, its allocation is live, the element lies
  inside it, its address is a multiple of the size of \<^verbatim>\<open>int\<close> (allocations
  start at such an address), and the element was declared an \<^verbatim>\<open>int\<close>.
\<close>

definition int_access :: "pointer \<Rightarrow> machine \<Rightarrow> fault + (handle \<times> nat \<times> block)" where
  "int_access p s =
     (case p of
        Null \<Rightarrow> Inl Null_dereference
      | Ptr h i \<Rightarrow>
          (case heap s h of
             None \<Rightarrow> Inl Wild_pointer
           | Some b \<Rightarrow>
               if \<not> live b then Inl (Use_after_free h)
               else if length (cells b) \<le> i then Inl (Out_of_bounds h i (length (cells b)))
               else if byte_offset (cells b) i mod sizeof TInt \<noteq> 0 then Inl (Misaligned_access h i)
               else if fst (cells b ! i) \<noteq> TInt then Inl (Type_mismatch h i)
               else Inr (h, i, b)))"

definition store_int :: "pointer \<Rightarrow> cint \<Rightarrow> unit prog" where
  "store_int p v =
     seq (log (Write p)) (\<lambda>_ s.
       case int_access p s of
         Inl e \<Rightarrow> (Inl e, s)
       | Inr (h, i, b) \<Rightarrow>
           (Inr (), s\<lparr>heap := (heap s)(h \<mapsto> b\<lparr>cells := (cells b)[i := (TInt, Some (IntV v))]\<rparr>)\<rparr>))"

definition load_int :: "pointer \<Rightarrow> cint prog" where
  "load_int p =
     seq (log (Read p)) (\<lambda>_ s.
       case int_access p s of
         Inl e \<Rightarrow> (Inl e, s)
       | Inr (h, i, b) \<Rightarrow>
           (case snd (cells b ! i) of
              None \<Rightarrow> (Inl (Uninitialized_read h i), s)
            | Some (IntV v) \<Rightarrow> (Inr v, s)
            | Some _ \<Rightarrow> (Inl (Type_mismatch h i), s)))"

subsection \<open>Standard output\<close>

definition newline :: char where
  "newline = CHR 0x0A"

fun show_nat :: "nat \<Rightarrow> string" where
  "show_nat n =
     (if n < 10 then [''0123456789'' ! n]
      else show_nat (n div 10) @ [''0123456789'' ! (n mod 10)])"

definition show_int :: "int \<Rightarrow> string" where
  "show_int i = (if i < 0 then CHR ''-'' # show_nat (nat (- i)) else show_nat (nat i))"

definition cout_str :: "string \<Rightarrow> unit prog" where
  "cout_str str s = (Inr (), s\<lparr>out := out s @ str\<rparr>)"

definition cout_int :: "cint \<Rightarrow> unit prog" where
  "cout_int v = cout_str (show_int (sint v))"

definition endl :: "unit prog" where
  "endl = cout_str [newline]"

subsection \<open>Arithmetic on \<^verbatim>\<open>int\<close>\<close>

text \<open>\<^verbatim>\<open>x++\<close> and \<^verbatim>\<open>x + 1\<close>: the new value; past \<open>INT_MAX\<close> it overflows.\<close>

definition int_incr :: "cint \<Rightarrow> cint prog" where
  "int_incr x s =
     (if x = INT_MAX \<and> \<not> wraparound s then (Inl (Signed_overflow x), s)
      else (Inr (x + 1), s))"

text \<open>\<^verbatim>\<open>x / y\<close> on two \<^verbatim>\<open>int\<close>s: the quotient truncated towards zero.\<close>

definition int_div :: "cint \<Rightarrow> cint \<Rightarrow> cint prog" where
  "int_div x y =
     seq (log (Divide x y)) (\<lambda>_ s.
       if y = 0 then (Inl (Division_by_zero x), s)
       else if x = INT_MIN \<and> y = - 1 then (Inl (Signed_overflow x), s)
       else (Inr (word_of_int (sint x sdiv sint y)), s))"

text \<open>\<^verbatim>\<open>x << n\<close>: the count must be at least 0 and less than the width of \<^verbatim>\<open>int\<close>.\<close>

definition int_shl :: "cint \<Rightarrow> cint \<Rightarrow> cint prog" where
  "int_shl x n s =
     (if sint n < 0 \<or> 32 \<le> sint n then (Inl (Shift_out_of_bounds n), s)
      else (Inr (push_bit (nat (sint n)) x), s))"

subsection \<open>AddressSanitizer examples\<close>

text \<open>
  \<^verbatim>\<open>
  void asan_buffer_overflow() {
      int arr[10];
      arr[15] = 42;
      std::cout << "Buffer overflow: " << arr[15] << std::endl;
  }
  \<close>
  The operands of \<^verbatim>\<open><<\<close> are evaluated left to right (C++17), in every routine.
\<close>

definition asan_buffer_overflow :: "unit prog" where
  "asan_buffer_overflow =
     seq (local_array TInt 10) (\<lambda>arr.
     seq (store_int (subscript arr 15) 42) (\<lambda>_.
     seq (cout_str ''Buffer overflow: '') (\<lambda>_.
     seq (load_int (subscript arr 15)) (\<lambda>v.
     seq (cout_int v) (\<lambda>_.
     endl)))))"

text \<open>
  \<^verbatim>\<open>
  void asan_use_after_free() {
      int* ptr = new int(42);
      delete ptr;
      *ptr = 100;
      std::cout << "Use after free: " << *ptr << std::endl;
  }
  \<close>
\<close>

definition asan_use_after_free :: "unit prog" where
  "asan_use_after_free =
     seq (new_int 42) (\<lambda>ptr.
     seq (delete ptr) (\<lambda>_.
     seq (store_int ptr 100) (\<lambda>_.
     seq (cout_str ''Use after free: '') (\<lambda>_.
     seq (load_int ptr) (\<lambda>v.
     seq (cout_int v) (\<lambda>_.
     endl))))))"

text \<open>
  \<^verbatim>\<open>
  void asan_double_free() {
      int* ptr = new int(42);
      delete ptr;
      delete ptr;
  }
  \<close>
\<close>

definition asan_double_free :: "unit prog" where
  "asan_double_free =
     seq (new_int 42) (\<lambda>ptr.
     seq (delete ptr) (\<lambda>_.
     delete ptr))"

text \<open>
  \<^verbatim>\<open>
  void asan_memory_leak() {
      int* ptr = new int[1000];
      // delete[] ptr;
  }
  \<close>
\<close>

definition asan_memory_leak :: "unit prog" where
  "asan_memory_leak =
     seq (new_int_array 1000) (\<lambda>ptr.
     return ())"

subsection \<open>ThreadSanitizer examples\<close>

text \<open>
  \<^verbatim>\<open>int shared_counter = 0;\<close> and \<^verbatim>\<open>std::vector<int> shared_vec;\<close> are read
  and written with plain loads and stores.
\<close>

definition load_shared_counter :: "actor \<Rightarrow> cint prog" where
  "load_shared_counter a s =
     (Inr (shared_counter s), s\<lparr>trace := trace s @ [Load a Shared_counter]\<rparr>)"

definition store_shared_counter :: "actor \<Rightarrow> cint \<Rightarrow> unit prog" where
  "store_shared_counter a v s =
     (Inr (), s\<lparr>shared_counter := v, trace := trace s @ [Store a Shared_counter]\<rparr>)"

definition load_shared_vec :: "actor \<Rightarrow> cint list prog" where
  "load_shared_vec a s =
     (Inr (shared_vec s), s\<lparr>trace := trace s @ [Load a Shared_vec]\<rparr>)"

text \<open>
  The second half of \<^verbatim>\<open>push_back\<close>. The first half has read the vector (its
  buffer, its size and its capacity) and found \<open>seen\<close>; the second half stores the new
  element and the new size after it, in the buffer it has read or in a fresh one after
  releasing that. If the vector has been written in between, the store goes by a stale
  size to a buffer that may have been released: the heap is corrupted, and the routine
  ends in a fault, as for every other operation that C++ leaves undefined.
\<close>

definition write_back_vec :: "actor \<Rightarrow> cint list \<Rightarrow> cint list \<Rightarrow> unit prog" where
  "write_back_vec a seen vs =
     seq (log (Store a Shared_vec)) (\<lambda>_ s.
       if shared_vec s \<noteq> seen then (Inl (Concurrent_modification a), s)
       else (Inr (), s\<lparr>shared_vec := vs\<rparr>))"

text \<open>\<^verbatim>\<open>shared_counter++\<close> and \<^verbatim>\<open>shared_vec.push_back(x)\<close>, run without interruption.\<close>

definition shared_counter_incr :: "actor \<Rightarrow> unit prog" where
  "shared_counter_incr a =
     seq (load_shared_counter a) (\<lambda>v.
     seq (int_incr v) (\<lambda>v'.
     store_shared_counter a v'))"

definition push_back :: "actor \<Rightarrow> cint \<Rightarrow> unit prog" where
  "push_back a x =
     seq (load_shared_vec a) (\<lambda>vs.
     write_back_vec a vs (vs @ [x]))"

text \<open>
  \<^verbatim>\<open>
  void tsan_data_race_increment() {
      for (int i = 0; i < 100000; ++i) {
          shared_counter++;
      }
  }
  \<close>
  The body as one call, run by the actor \<open>a\<close> with nothing else running: the loop from
  a given value of \<open>i\<close>, and the function itself, which starts it at 0.
\<close>

function data_race_increment_loop :: "actor \<Rightarrow> nat \<Rightarrow> unit prog" where
  "data_race_increment_loop a i s =
     (if i < 100000 then
        (case shared_counter_incr a s of
           (Inl e, s') \<Rightarrow> (Inl e, s')
         | (Inr _, s') \<Rightarrow> data_race_increment_loop a (Suc i) s')
      else (Inr (), s))"
  by pat_completeness auto
termination
  by (relation "measure (\<lambda>(a, i, s). 100000 - i)") auto

definition tsan_data_race_increment :: "actor \<Rightarrow> unit prog" where
  "tsan_data_race_increment a = data_race_increment_loop a 0"

text \<open>
  \<^verbatim>\<open>
  void tsan_vector_race() {
      for (int i = 0; i < 1000; ++i) {
          shared_vec.push_back(i);
      }
  }
  \<close>
\<close>

function vector_race_loop :: "actor \<Rightarrow> nat \<Rightarrow> unit prog" where
  "vector_race_loop a i s =
     (if i < 1000 then
        (case push_back a (of_nat i) s of
           (Inl e, s') \<Rightarrow> (Inl e, s')
         | (Inr _, s') \<Rightarrow> vector_race_loop a (Suc i) s')
      else (Inr (), s))"
  by pat_completeness auto
termination
  by (relation "measure (\<lambda>(a, i, s). 1000 - i)") auto

definition tsan_vector_race :: "actor \<Rightarrow> unit prog" where
  "tsan_vector_race a = vector_race_loop a 0"

text \<open>
  The same two bodies as a \<^verbatim>\<open>std::thread\<close> runs them: one atomic action at a
  time, so that another thread may act between the read and the write of one
  \<^verbatim>\<open>shared_counter++\<close> or one \<^verbatim>\<open>push_back\<close>. The loop test touches only
  the thread's own \<open>i\<close> and is part of the action that follows it.
\<close>

definition new_thread :: "task \<Rightarrow> thread" where
  "new_thread f = (case f of Data_race_increment \<Rightarrow> Incrementing 0 None | Vector_race \<Rightarrow> Appending 0 None)"

definition set_thread :: "tid \<Rightarrow> thread \<Rightarrow> unit prog" where
  "set_thread t th s = (Inr (), s\<lparr>threads := (threads s)[t := th]\<rparr>)"

definition step_thread :: "tid \<Rightarrow> unit prog" where
  "step_thread t s =
     (if length (threads s) \<le> t then (Inr (), s)
      else
        case threads s ! t of
          Finished \<Rightarrow> (Inr (), s)
        | Incrementing i None \<Rightarrow>
            if i < 100000
            then seq (load_shared_counter (Worker t)) (\<lambda>v. set_thread t (Incrementing i (Some v))) s
            else set_thread t Finished s
        | Incrementing i (Some v) \<Rightarrow>
            seq (int_incr v) (\<lambda>v'.
            seq (store_shared_counter (Worker t) v') (\<lambda>_.
            set_thread t (Incrementing (Suc i) None))) s
        | Appending i None \<Rightarrow>
            if i < 1000
            then seq (load_shared_vec (Worker t)) (\<lambda>vs. set_thread t (Appending i (Some vs))) s
            else set_thread t Finished s
        | Appending i (Some vs) \<Rightarrow>
            seq (write_back_vec (Worker t) vs (vs @ [of_nat i])) (\<lambda>_.
            set_thread t (Appending (Suc i) None)) s)"

text \<open>
  While the main thread goes from one of its operations to the next, the scheduler lets
  the workers named at the front of the schedule act, up to the next turn of the main
  thread.
\<close>

fun interleave_by :: "actor list \<Rightarrow> unit prog" where
  "interleave_by [] s = (Inr (), s\<lparr>sched := []\<rparr>)"
| "interleave_by (Main_thread # rest) s = (Inr (), s\<lparr>sched := rest\<rparr>)"
| "interleave_by (Worker t # rest) s =
     (case step_thread t s of
        (Inl e, s') \<Rightarrow> (Inl e, s'\<lparr>sched := rest\<rparr>)
      | (Inr _, s') \<Rightarrow> interleave_by rest s')"

definition interleave :: "unit prog" where
  "interleave s = interleave_by (sched s) s"

text \<open>\<^verbatim>\<open>std::thread t(f);\<close> the new thread exists and may run from here on.\<close>

definition thread_start :: "task \<Rightarrow> tid prog" where
  "thread_start f =
     seq (\<lambda>s. (Inr (length (threads s)),
               s\<lparr>threads := threads s @ [new_thread f],
                 trace := trace s @ [Spawn (length (threads s)) f]\<rparr>)) (\<lambda>t.
     seq interleave (\<lambda>_.
     return t))"

text \<open>
  The number of atomic actions a thread has left. It is the reason why waiting for a
  thread ends.
\<close>

fun remaining :: "thread \<Rightarrow> nat" where
  "remaining Finished = 0"
| "remaining (Incrementing i None) = 2 * (100000 - i) + 1"
| "remaining (Incrementing i (Some v)) = 2 * (100000 - Suc i) + 2"
| "remaining (Appending i None) = 2 * (1000 - i) + 1"
| "remaining (Appending i (Some vs)) = 2 * (1000 - Suc i) + 2"

text \<open>
  Waiting for thread \<open>t\<close>: the caller does nothing while the scheduler lets the workers
  act; a turn of the main thread passes unused; when the schedule is used up, the awaited
  thread is the one that acts.
\<close>

function await :: "tid \<Rightarrow> unit prog" where
  "await t s =
     (if length (threads s) \<le> t \<or> threads s ! t = Finished then (Inr (), s)
      else
        case sched s of
          [] \<Rightarrow>
            (case step_thread t s of
               (Inl e, s') \<Rightarrow> (Inl e, s')
             | (Inr _, s') \<Rightarrow> await t s')
        | Main_thread # rest \<Rightarrow> await t (s\<lparr>sched := rest\<rparr>)
        | Worker u # rest \<Rightarrow>
            (case step_thread u (s\<lparr>sched := rest\<rparr>) of
               (Inl e, s') \<Rightarrow> (Inl e, s')
             | (Inr _, s') \<Rightarrow> await t s'))"
  by pat_completeness auto
termination
proof (relation "measure (\<lambda>(t, s). length (sched s) + remaining (threads s ! t))", goal_cases)
  have same_sched: "sched (snd (step_thread u s)) = sched s" for u s
    by (simp add: step_thread_def seq_def set_thread_def load_shared_counter_def
        store_shared_counter_def load_shared_vec_def write_back_vec_def log_def int_incr_def
        split: thread.splits option.splits)
  have other: "threads (snd (step_thread u s)) ! t = threads s ! t" if "u \<noteq> t" for u t s
    using that
    by (simp add: step_thread_def seq_def set_thread_def load_shared_counter_def
        store_shared_counter_def load_shared_vec_def write_back_vec_def log_def int_incr_def
        split: thread.splits option.splits)
  have progress: "remaining (threads s' ! t) < remaining (threads s ! t)"
    if "t < length (threads s)" "threads s ! t \<noteq> Finished" "step_thread t s = (Inr x, s')"
    for t s s' and x :: unit
    using that
    by (auto simp add: step_thread_def seq_def set_thread_def load_shared_counter_def
        store_shared_counter_def load_shared_vec_def write_back_vec_def log_def int_incr_def
        split: thread.splits option.splits if_splits)
  {
    case 1
    show ?case by simp
  next
    case (2 t s x y)
    then show ?case
      using progress [where t=t and s=s] same_sched [of t s]
      by (cases "step_thread t s") auto
  next
    case (3 t s a rest)
    then show ?case by simp
  next
    case (4 t s a rest u x y)
    show ?case
    proof (cases "u = t")
      case True
      with 4 show ?thesis
        using progress [where t=t and s="s\<lparr>sched := rest\<rparr>"]
          same_sched [of t "s\<lparr>sched := rest\<rparr>"]
        by (cases "step_thread t (s\<lparr>sched := rest\<rparr>)") auto
    next
      case False
      with 4 show ?thesis
        using other [of u t "s\<lparr>sched := rest\<rparr>"]
          same_sched [of u "s\<lparr>sched := rest\<rparr>"]
        by (cases "step_thread u (s\<lparr>sched := rest\<rparr>)") auto
    qed
  }
qed

text \<open>
  \<^verbatim>\<open>t.join();\<close> returns once the thread has finished. Joining a thread object
  that names no thread is an error of the standard library.
\<close>

definition thread_join :: "tid \<Rightarrow> unit prog" where
  "thread_join t s =
     (if length (threads s) \<le> t then (Inl (Not_joinable t), s)
      else
        seq (await t) (\<lambda>_.
        log (Join t)) s)"

text \<open>
  \<^verbatim>\<open>
  void tsan_data_race_example() {
      std::thread t1(tsan_data_race_increment);
      std::thread t2(tsan_data_race_increment);
      t1.join();
      t2.join();
      std::cout << "Counter value: " << shared_counter << std::endl;
  }
  \<close>
\<close>

definition tsan_data_race_example :: "unit prog" where
  "tsan_data_race_example =
     seq (thread_start Data_race_increment) (\<lambda>t1.
     seq (thread_start Data_race_increment) (\<lambda>t2.
     seq (thread_join t1) (\<lambda>_.
     seq (thread_join t2) (\<lambda>_.
     seq (cout_str ''Counter value: '') (\<lambda>_.
     seq (load_shared_counter Main_thread) (\<lambda>v.
     seq (cout_int v) (\<lambda>_.
     endl)))))))"

text \<open>
  \<^verbatim>\<open>
  void tsan_vector_race_example() {
      std::thread t1(tsan_vector_race);
      std::thread t2(tsan_vector_race);
      t1.join();
      t2.join();
  }
  \<close>
\<close>

definition tsan_vector_race_example :: "unit prog" where
  "tsan_vector_race_example =
     seq (thread_start Vector_race) (\<lambda>t1.
     seq (thread_start Vector_race) (\<lambda>t2.
     seq (thread_join t1) (\<lambda>_.
     thread_join t2)))"

subsection \<open>MemorySanitizer examples\<close>

text \<open>
  \<^verbatim>\<open>
  void msan_uninitialized_read() {
      int x;
      if (x > 0) {
          std::cout << "Uninitialized read: " << x << std::endl;
      }
  }
  \<close>
\<close>

definition msan_uninitialized_read :: "unit prog" where
  "msan_uninitialized_read =
     seq (local_var TInt) (\<lambda>x.
     seq (load_int x) (\<lambda>v.
     if 0 < sint v then
       seq (cout_str ''Uninitialized read: '') (\<lambda>_.
       seq (load_int x) (\<lambda>v'.
       seq (cout_int v') (\<lambda>_.
       endl)))
     else return ()))"

text \<open>
  \<^verbatim>\<open>
  void msan_uninitialized_array() {
      int arr[10];
      std::cout << "Uninitialized array: " << arr[0] << std::endl;
  }
  \<close>
\<close>

definition msan_uninitialized_array :: "unit prog" where
  "msan_uninitialized_array =
     seq (local_array TInt 10) (\<lambda>arr.
     seq (cout_str ''Uninitialized array: '') (\<lambda>_.
     seq (load_int (subscript arr 0)) (\<lambda>v.
     seq (cout_int v) (\<lambda>_.
     endl))))"

text \<open>
  \<^verbatim>\<open>
  struct MyStruct {
      int value;
      char name[10];
  };
  \<close>
  The members in declaration order, and where \<^verbatim>\<open>value\<close> is among them.
\<close>

definition MyStruct :: "ctype list" where
  "MyStruct = TInt # replicate 10 TChar"

definition MyStruct_value :: nat where
  "MyStruct_value = 0"

text \<open>
  \<^verbatim>\<open>
  void msan_uninitialized_struct() {
      MyStruct s;
      std::cout << "Uninitialized struct: " << s.value << std::endl;
  }
  \<close>
\<close>

definition msan_uninitialized_struct :: "unit prog" where
  "msan_uninitialized_struct =
     seq (local_object MyStruct) (\<lambda>s.
     seq (cout_str ''Uninitialized struct: '') (\<lambda>_.
     seq (load_int (subscript s MyStruct_value)) (\<lambda>v.
     seq (cout_int v) (\<lambda>_.
     endl))))"

subsection \<open>UndefinedBehaviorSanitizer examples\<close>

text \<open>
  \<^verbatim>\<open>
  void ubsan_signed_overflow() {
      int x = INT_MAX;
      x++;
      std::cout << "Signed overflow: " << x << std::endl;
  }
  \<close>
\<close>

definition ubsan_signed_overflow :: "unit prog" where
  "ubsan_signed_overflow =
     seq (int_incr INT_MAX) (\<lambda>x.
     seq (cout_str ''Signed overflow: '') (\<lambda>_.
     seq (cout_int x) (\<lambda>_.
     endl)))"

text \<open>
  \<^verbatim>\<open>
  void ubsan_null_pointer() {
      int* ptr = nullptr;
      *ptr = 42;
  }
  \<close>
\<close>

definition ubsan_null_pointer :: "unit prog" where
  "ubsan_null_pointer = store_int Null 42"

text \<open>
  \<^verbatim>\<open>
  void ubsan_division_by_zero() {
      int x = 10;
      int y = 0;
      int result = x / y;
      std::cout << "Division: " << result << std::endl;
  }
  \<close>
\<close>

definition ubsan_division_by_zero :: "unit prog" where
  "ubsan_division_by_zero =
     (let x = 10; y = 0 in
      seq (int_div x y) (\<lambda>result.
      seq (cout_str ''Division: '') (\<lambda>_.
      seq (cout_int result) (\<lambda>_.
      endl))))"

text \<open>
  \<^verbatim>\<open>
  void ubsan_shift_out_of_bounds() {
      int x = 1;
      int shift = 100;
      int result = x << shift;
      std::cout << "Shift: " << result << std::endl;
  }
  \<close>
\<close>

definition ubsan_shift_out_of_bounds :: "unit prog" where
  "ubsan_shift_out_of_bounds =
     (let x = 1; shift = 100 in
      seq (int_shl x shift) (\<lambda>result.
      seq (cout_str ''Shift: '') (\<lambda>_.
      seq (cout_int result) (\<lambda>_.
      endl))))"

text \<open>
  \<^verbatim>\<open>
  void ubsan_array_bounds() {
      int arr[5] = {1, 2, 3, 4, 5};
      int index = 10;
      int value = arr[index];
      std::cout << "Array access: " << value << std::endl;
  }
  \<close>
\<close>

definition ubsan_array_bounds :: "unit prog" where
  "ubsan_array_bounds =
     seq (local_array_init TInt [IntV 1, IntV 2, IntV 3, IntV 4, IntV 5]) (\<lambda>arr.
     (let index = 10 in
      seq (load_int (subscript arr index)) (\<lambda>v.
      seq (cout_str ''Array access: '') (\<lambda>_.
      seq (cout_int v) (\<lambda>_.
      endl)))))"

text \<open>
  \<^verbatim>\<open>
  void ubsan_misaligned_pointer() {
      char data[10] = "123456789";
      int* ptr = reinterpret_cast<int*>(data + 1);
      *ptr = 42;
  }
  \<close>
  The cast keeps the address and changes only the type the access is made at.
\<close>

definition ubsan_misaligned_pointer :: "unit prog" where
  "ubsan_misaligned_pointer =
     seq (local_array_init TChar (map CharV (''123456789'' @ [CHR 0x00]))) (\<lambda>data.
     (let ptr = subscript data 1 in
      store_int ptr 42))"

text \<open>
  \<^verbatim>\<open>
  void ubsan_invalid_cast() {
      float f = 3.14f;
      int* ptr = reinterpret_cast<int*>(&f);
      std::cout << "Invalid cast: " << *ptr << std::endl;
  }
  \<close>
  \<open>0x4048F5C3\<close> is the single-precision number nearest to 3.14.
\<close>

definition ubsan_invalid_cast :: "unit prog" where
  "ubsan_invalid_cast =
     seq (local_var_init TFloat (FloatV 0x4048F5C3)) (\<lambda>f.
     (let ptr = f in
      seq (cout_str ''Invalid cast: '') (\<lambda>_.
      seq (load_int ptr) (\<lambda>v.
      seq (cout_int v) (\<lambda>_.
      endl)))))"

subsection \<open>The catalog\<close>

text \<open>
  The routines \<^verbatim>\<open>main\<close> lists, in its order, under the four headings it lists
  them under. (\<^verbatim>\<open>tsan_data_race_increment\<close> and \<^verbatim>\<open>tsan_vector_race\<close> are
  not listed: they are the bodies of the threads that two listed routines start.)
\<close>

datatype category = Addressing | Threading | Uninitialized_memory | Undefined_behaviour

datatype routine =
    Asan_buffer_overflow | Asan_use_after_free | Asan_double_free | Asan_memory_leak
  | Tsan_data_race_example | Tsan_vector_race_example
  | Msan_uninitialized_read | Msan_uninitialized_array | Msan_uninitialized_struct
  | Ubsan_signed_overflow | Ubsan_null_pointer | Ubsan_division_by_zero
  | Ubsan_shift_out_of_bounds | Ubsan_array_bounds | Ubsan_misaligned_pointer
  | Ubsan_invalid_cast

definition catalog :: "routine list" where
  "catalog =
     [Asan_buffer_overflow, Asan_use_after_free, Asan_double_free, Asan_memory_leak,
      Tsan_data_race_example, Tsan_vector_race_example,
      Msan_uninitialized_read, Msan_uninitialized_array, Msan_uninitialized_struct,
      Ubsan_signed_overflow, Ubsan_null_pointer, Ubsan_division_by_zero,
      Ubsan_shift_out_of_bounds, Ubsan_array_bounds, Ubsan_misaligned_pointer,
      Ubsan_invalid_cast]"

fun category_of :: "routine \<Rightarrow> category" where
  "category_of Asan_buffer_overflow = Addressing"
| "category_of Asan_use_after_free = Addressing"
| "category_of Asan_double_free = Addressing"
| "category_of Asan_memory_leak = Addressing"
| "category_of Tsan_data_race_example = Threading"
| "category_of Tsan_vector_race_example = Threading"
| "category_of Msan_uninitialized_read = Uninitialized_memory"
| "category_of Msan_uninitialized_array = Uninitialized_memory"
| "category_of Msan_uninitialized_struct = Uninitialized_memory"
| "category_of Ubsan_signed_overflow = Undefined_behaviour"
| "category_of Ubsan_null_pointer = Undefined_behaviour"
| "category_of Ubsan_division_by_zero = Undefined_behaviour"
| "category_of Ubsan_shift_out_of_bounds = Undefined_behaviour"
| "category_of Ubsan_array_bounds = Undefined_behaviour"
| "category_of Ubsan_misaligned_pointer = Undefined_behaviour"
| "category_of Ubsan_invalid_cast = Undefined_behaviour"

definition routines_in :: "category \<Rightarrow> routine list" where
  "routines_in c = filter (\<lambda>r. category_of r = c) catalog"

text \<open>What a call of a catalog routine runs.\<close>

fun run :: "routine \<Rightarrow> unit prog" where
  "run Asan_buffer_overflow = asan_buffer_overflow"
| "run Asan_use_after_free = asan_use_after_free"
| "run Asan_double_free = asan_double_free"
| "run Asan_memory_leak = asan_memory_leak"
| "run Tsan_data_race_example = tsan_data_race_example"
| "run Tsan_vector_race_example = tsan_vector_race_example"
| "run Msan_uninitialized_read = msan_uninitialized_read"
| "run Msan_uninitialized_array = msan_uninitialized_array"
| "run Msan_uninitialized_struct = msan_uninitialized_struct"
| "run Ubsan_signed_overflow = ubsan_signed_overflow"
| "run Ubsan_null_pointer = ubsan_null_pointer"
| "run Ubsan_division_by_zero = ubsan_division_by_zero"
| "run Ubsan_shift_out_of_bounds = ubsan_shift_out_of_bounds"
| "run Ubsan_array_bounds = ubsan_array_bounds"
| "run Ubsan_misaligned_pointer = ubsan_misaligned_pointer"
| "run Ubsan_invalid_cast = ubsan_invalid_cast"

subsection \<open>The entry point\<close>

text \<open>
  \<^verbatim>\<open>
  int main() {
      std::cout << "Sanitizer Examples\n";
      std::cout << "==================\n\n";
      // (sixteen calls, all commented out)
      std::cout << "No examples executed. Uncomment examples in main() to test.\n";
      return 0;
  }
  \<close>
\<close>

definition main :: "int prog" where
  "main =
     seq (cout_str (''Sanitizer Examples'' @ [newline])) (\<lambda>_.
     seq (cout_str (''=================='' @ [newline, newline])) (\<lambda>_.
     seq (cout_str (''No examples executed. Uncomment examples in main() to test.'' @ [newline])) (\<lambda>_.
     return 0)))"

subsection \<open>Observations on a run\<close>


text \<open>Reading or writing one of the two globals.\<close>

fun touches_shared :: "event \<Rightarrow> bool" where
  "touches_shared (Load a x) = True"
| "touches_shared (Store a x) = True"
| "touches_shared _ = False"

text \<open>
  A computation that neither changes the two globals nor adds an access to them to the
  log, from any state.
\<close>

definition keeps_shared :: "'a prog \<Rightarrow> bool" where
  "keeps_shared m =
     (\<forall>s. shared_counter (snd (m s)) = shared_counter s
        \<and> shared_vec (snd (m s)) = shared_vec s
        \<and> filter touches_shared (trace (snd (m s))) = filter touches_shared (trace s))"

















section \<open>Properties\<close>

text \<open>The operations of the machine, for unfolding a routine into what it does.\<close>

lemmas machine_ops =
  seq_def return_def log_def alloc_def local_var_def local_var_init_def local_object_def
  local_array_def local_array_init_def new_int_def new_int_array_def delete_def
  int_access_def store_int_def load_int_def cout_str_def cout_int_def endl_def newline_def
  byte_offset_def int_incr_def int_div_def int_shl_def Let_def

subsection \<open>The entry point\<close>

text \<open>
  C1. With every call commented out, \<open>main\<close> returns exit status 0 from any state,
  changes nothing but standard output, and appends to it the same bytes every time: the
  banner, its underline, an empty line and the trailer.
\<close>

theorem main_default_output:
  "main s =
     (Inr 0,
      s\<lparr>out := out s @ ''Sanitizer Examples'' @ [CHR 0x0A] @ ''=================='' @ [CHR 0x0A, CHR 0x0A]
         @ ''No examples executed. Uncomment examples in main() to test.'' @ [CHR 0x0A]\<rparr>)"
  by (simp add: main_def seq_def cout_str_def return_def newline_def)

subsection \<open>The catalog\<close>

text \<open>
  C2, as stated, fails: the category of undefined behaviour holds seven routines, not
  between three and five.
\<close>

theorem undefined_behaviour_has_more_than_five:
  "\<not> (3 \<le> length (routines_in Undefined_behaviour) \<and> length (routines_in Undefined_behaviour) \<le> 5)"
  by (simp add: routines_in_def catalog_def)

text \<open>
  C2, amended. The catalog has sixteen routines, all different, in four categories that
  hold 4, 2, 3 and 7 of them (addressing, threading, uninitialised memory, undefined
  behaviour): the shares are 4/16, 2/16, 3/16 and 7/16, and only the first is a quarter.
\<close>

theorem catalog_category_sizes:
  "map (\<lambda>c. length (routines_in c)) [Addressing, Threading, Uninitialized_memory, Undefined_behaviour]
     = [4, 2, 3, 7]
   \<and> length catalog = 16 \<and> distinct catalog
   \<and> (\<forall>c. c = Addressing \<or> c = Threading \<or> c = Uninitialized_memory \<or> c = Undefined_behaviour)"
proof -
  have "c = Addressing \<or> c = Threading \<or> c = Uninitialized_memory \<or> c = Undefined_behaviour" for c
    by (cases c) simp_all
  then show ?thesis
    by (simp add: routines_in_def catalog_def)
qed

subsection \<open>Addressing\<close>

text \<open>
  C3. \<open>asan_buffer_overflow\<close> creates a local (not dynamic) array of exactly 10
  \<^verbatim>\<open>int\<close>s, then attempts a write at index 15; the write takes the out-of-bounds
  branch of the guarded access, 5 elements past the length 10, and the routine ends there.
\<close>

theorem asan_buffer_overflow_five_past_bound:
  "fst (asan_buffer_overflow s) = Inl (Out_of_bounds (next_handle s) (10 + 5) 10)
   \<and> trace (snd (asan_buffer_overflow s)) =
       trace s @ [Alloc (next_handle s) 10, Write (Ptr (next_handle s) 15)]
   \<and> heap (snd (asan_buffer_overflow s)) (next_handle s) =
       Some \<lparr>cells = replicate 10 (TInt, None), live = True, dynamic = False\<rparr>"
  by (simp add: asan_buffer_overflow_def machine_ops)

text \<open>
  C5. \<open>asan_double_free\<close> obtains one allocation and releases the pointer to it twice,
  with no operation at all between the two releases; the second release takes the
  double-free branch.
\<close>

theorem asan_double_free_same_handle_twice:
  "fst (asan_double_free s) = Inl (Double_free (next_handle s))
   \<and> trace (snd (asan_double_free s)) =
       trace s @ [Alloc (next_handle s) 1, Release (Ptr (next_handle s) 0),
                  Release (Ptr (next_handle s) 0)]"
  by (simp add: asan_double_free_def machine_ops)

subsection \<open>Uninitialised memory\<close>

text \<open>
  C6. Each of the three routines creates its object without content and then reads the
  flagged element (the scalar, element 0 of the array, the member \<^verbatim>\<open>value\<close>): the
  creation and the read are its only storage operations, so no write comes before the
  read, and the read takes the uninitialised branch.
\<close>

theorem msan_no_write_before_read:
  "fst (msan_uninitialized_read s) = Inl (Uninitialized_read (next_handle s) 0)
   \<and> trace (snd (msan_uninitialized_read s)) =
       trace s @ [Alloc (next_handle s) 1, Read (Ptr (next_handle s) 0)]
   \<and> fst (msan_uninitialized_array s) = Inl (Uninitialized_read (next_handle s) 0)
   \<and> trace (snd (msan_uninitialized_array s)) =
       trace s @ [Alloc (next_handle s) 10, Read (Ptr (next_handle s) 0)]
   \<and> fst (msan_uninitialized_struct s) = Inl (Uninitialized_read (next_handle s) MyStruct_value)
   \<and> trace (snd (msan_uninitialized_struct s)) =
       trace s @ [Alloc (next_handle s) 11, Read (Ptr (next_handle s) MyStruct_value)]"
  by (simp add: msan_uninitialized_read_def msan_uninitialized_array_def
      msan_uninitialized_struct_def MyStruct_def MyStruct_value_def machine_ops)

subsection \<open>Undefined behaviour\<close>

text \<open>
  C4. \<open>ubsan_division_by_zero\<close> divides the \<^verbatim>\<open>int\<close> 10 by the \<^verbatim>\<open>int\<close> 0: its
  one operation is the integer division with these operands, which takes the
  division-by-zero branch; nothing is printed.
\<close>

theorem ubsan_division_by_zero_integer:
  "ubsan_division_by_zero s = (Inl (Division_by_zero 10), s\<lparr>trace := trace s @ [Divide 10 0]\<rparr>)"
  by (simp add: ubsan_division_by_zero_def machine_ops)

text \<open>
  C9. \<open>ubsan_signed_overflow\<close> increments \<open>INT_MAX\<close> once. \<open>INT_MAX\<close> is
  \<open>2 ^ 31 - 1\<close>, and one more, modulo \<open>2 ^ 32\<close>, is \<open>INT_MIN\<close>, which reads
  \<open>-2147483648\<close>: a build that wraps prints that number, and a build that traps ends at
  the increment with the overflow of \<open>INT_MAX\<close>.
\<close>

theorem ubsan_signed_overflow_wraps:
  "sint INT_MAX = 2 ^ 31 - 1
   \<and> INT_MAX + 1 = INT_MIN
   \<and> uint (INT_MAX + 1) = (uint INT_MAX + 1) mod 2 ^ 32
   \<and> sint INT_MIN = - 2147483648
   \<and> ubsan_signed_overflow (s\<lparr>wraparound := True\<rparr>) =
       (Inr (), s\<lparr>wraparound := True,
                  out := out s @ ''Signed overflow: -2147483648'' @ [CHR 0x0A]\<rparr>)
   \<and> ubsan_signed_overflow (s\<lparr>wraparound := False\<rparr>) =
       (Inl (Signed_overflow INT_MAX), s\<lparr>wraparound := False\<rparr>)"
  by (simp add: ubsan_signed_overflow_def machine_ops INT_MAX_def INT_MIN_def show_int_def)

subsection \<open>The two globals outside the threading examples\<close>

lemma keeps_shared_seq:
  "keeps_shared m \<Longrightarrow> (\<And>x. keeps_shared (f x)) \<Longrightarrow> keeps_shared (seq m f)"
  unfolding keeps_shared_def seq_def
  by (auto split: prod.splits sum.splits) (metis snd_conv)+

lemma keeps_shared_return: "keeps_shared (return x)"
  by (simp add: keeps_shared_def return_def)

lemma keeps_shared_alloc: "keeps_shared (alloc d cs)"
  by (simp add: keeps_shared_def alloc_def Let_def)

lemma keeps_shared_delete: "keeps_shared (delete p)"
  by (simp add: keeps_shared_def delete_def seq_def log_def return_def split: pointer.splits option.splits)

lemma keeps_shared_store_int: "keeps_shared (store_int p v)"
  by (simp add: keeps_shared_def store_int_def seq_def log_def split: sum.splits prod.splits)

lemma keeps_shared_load_int: "keeps_shared (load_int p)"
  by (simp add: keeps_shared_def load_int_def seq_def log_def split: sum.splits prod.splits option.splits val.splits)

lemma keeps_shared_cout_str: "keeps_shared (cout_str x)"
  by (simp add: keeps_shared_def cout_str_def)

lemma keeps_shared_int_incr: "keeps_shared (int_incr x)"
  by (simp add: keeps_shared_def int_incr_def)

lemma keeps_shared_int_div: "keeps_shared (int_div x y)"
  by (simp add: keeps_shared_def int_div_def seq_def log_def)

lemma keeps_shared_int_shl: "keeps_shared (int_shl x y)"
  by (simp add: keeps_shared_def int_shl_def)

lemmas keeps_shared_intros =
  keeps_shared_seq keeps_shared_return keeps_shared_alloc keeps_shared_delete
  keeps_shared_store_int keeps_shared_load_int keeps_shared_cout_str keeps_shared_int_incr
  keeps_shared_int_div keeps_shared_int_shl

lemma keeps_shared_run: "category_of r \<noteq> Threading \<Longrightarrow> keeps_shared (run r)"
  by (cases r)
    (auto simp add: asan_buffer_overflow_def asan_use_after_free_def asan_double_free_def
      asan_memory_leak_def msan_uninitialized_read_def msan_uninitialized_array_def
      msan_uninitialized_struct_def ubsan_signed_overflow_def ubsan_null_pointer_def
      ubsan_division_by_zero_def ubsan_shift_out_of_bounds_def ubsan_array_bounds_def
      ubsan_misaligned_pointer_def ubsan_invalid_cast_def
      local_var_def local_var_init_def local_object_def local_array_def local_array_init_def
      new_int_def new_int_array_def cout_int_def endl_def Let_def
      intro!: keeps_shared_intros)

lemma keeps_shared_main: "keeps_shared main"
  by (auto simp add: main_def intro!: keeps_shared_intros)

text \<open>
  C8. A catalog routine outside the threading category leaves \<open>shared_counter\<close> and
  \<open>shared_vec\<close> as they were and makes no access to either, from any state and
  whether or not it ends in a fault; so does \<open>main\<close> with every call commented out.
\<close>

theorem shared_state_only_in_threading:
  "(category_of r \<noteq> Threading \<longrightarrow>
      shared_counter (snd (run r s)) = shared_counter s
      \<and> shared_vec (snd (run r s)) = shared_vec s
      \<and> filter touches_shared (trace (snd (run r s))) = filter touches_shared (trace s))
   \<and> shared_counter (snd (main s)) = shared_counter s
   \<and> shared_vec (snd (main s)) = shared_vec s
   \<and> filter touches_shared (trace (snd (main s))) = filter touches_shared (trace s)"
  using keeps_shared_run [of r] keeps_shared_main
  by (simp add: keeps_shared_def)

theorem shared_state_only_in_threading_witness:
  "category_of Ubsan_array_bounds \<noteq> Threading
   \<and> shared_counter (snd (run Ubsan_array_bounds (process_start [] False))) = 0
   \<and> shared_vec (snd (run Ubsan_array_bounds (process_start [] False))) = []
   \<and> filter touches_shared (trace (snd (run Ubsan_array_bounds (process_start [] False)))) = []"
  using shared_state_only_in_threading [of Ubsan_array_bounds "process_start [] False"]
  by (simp add: process_start_def)

subsection \<open>The bodies of the threads, each as one call\<close>

declare data_race_increment_loop.simps [simp del] vector_race_loop.simps [simp del]

lemma sint_succ:
  fixes c :: cint
  assumes "sint c < 2147483647"
  shows "c \<noteq> INT_MAX" and "sint (c + 1) = sint c + 1"
proof -
  show "c \<noteq> INT_MAX" using assms by (auto simp: INT_MAX_def)
  have "- (2 ^ 31) \<le> sint c" using sint_ge [of c] by simp
  then show "sint (c + 1) = sint c + 1"
    using assms by (simp add: sint_word_ariths signed_take_bit_int_eq_self)
qed

lemma shared_counter_incr_ok:
  "wraparound s \<or> sint (shared_counter s) < 2147483647 \<Longrightarrow>
   shared_counter_incr a s =
     (Inr (), s\<lparr>shared_counter := shared_counter s + 1,
                trace := trace s @ [Load a Shared_counter, Store a Shared_counter]\<rparr>)"
  using sint_succ(1) [of "shared_counter s"]
  by (auto simp add: shared_counter_incr_def seq_def load_shared_counter_def int_incr_def
      store_shared_counter_def)

lemma data_race_increment_loop_runs:
  "i \<le> 100000 \<Longrightarrow> wraparound s \<or> sint (shared_counter s) + int (100000 - i) \<le> 2147483647 \<Longrightarrow>
   data_race_increment_loop a i s =
     (Inr (), s\<lparr>shared_counter := shared_counter s + of_nat (100000 - i),
                trace := trace s @ concat (replicate (100000 - i) [Load a Shared_counter, Store a Shared_counter])\<rparr>)"
proof (induction "100000 - i" arbitrary: i s)
  case 0
  then show ?case by (simp add: data_race_increment_loop.simps)
next
  case (Suc n)
  let ?s' = "s\<lparr>shared_counter := shared_counter s + 1,
                trace := trace s @ [Load a Shared_counter, Store a Shared_counter]\<rparr>"
  from Suc.hyps(2) have lt: "i < 100000" and n: "n = 100000 - Suc i" by simp_all
  from Suc.prems(2) lt have ok: "wraparound s \<or> sint (shared_counter s) < 2147483647" by auto
  have step: "shared_counter_incr a s = (Inr (), ?s')"
    by (rule shared_counter_incr_ok [OF ok])
  have next_ok: "wraparound ?s' \<or> sint (shared_counter ?s') + int (100000 - Suc i) \<le> 2147483647"
  proof (cases "wraparound s")
    case True then show ?thesis by simp
  next
    case False
    with Suc.prems(2) lt have b: "sint (shared_counter s) + int (100000 - i) \<le> 2147483647" by simp
    with lt have "sint (shared_counter s) < 2147483647" by simp
    from sint_succ(2) [OF this] b lt show ?thesis by simp
  qed
  have IH: "data_race_increment_loop a (Suc i) ?s' =
     (Inr (), ?s'\<lparr>shared_counter := shared_counter ?s' + of_nat (100000 - Suc i),
                trace := trace ?s' @ concat (replicate (100000 - Suc i) [Load a Shared_counter, Store a Shared_counter])\<rparr>)"
    using Suc.hyps(1) [OF n _ next_ok] lt by simp
  define m where "m = 100000 - Suc i"
  have k: "100000 - i = Suc m" using lt by (simp add: m_def)
  show ?case
    apply (subst data_race_increment_loop.simps)
    apply (simp only: lt if_True step prod.case sum.case IH)
    unfolding m_def [symmetric] k
    by simp
qed

lemma push_back_eq:
  "push_back a x s =
     (Inr (), s\<lparr>shared_vec := shared_vec s @ [x],
                trace := trace s @ [Load a Shared_vec, Store a Shared_vec]\<rparr>)"
  by (simp add: push_back_def seq_def load_shared_vec_def write_back_vec_def log_def)

lemma vector_race_loop_runs:
  "i \<le> 1000 \<Longrightarrow>
   vector_race_loop a i s =
     (Inr (), s\<lparr>shared_vec := shared_vec s @ map of_nat [i..<1000],
                trace := trace s @ concat (replicate (1000 - i) [Load a Shared_vec, Store a Shared_vec])\<rparr>)"
proof (induction "1000 - i" arbitrary: i s)
  case 0
  then show ?case by (simp add: vector_race_loop.simps)
next
  case (Suc n)
  from Suc.hyps(2) have lt: "i < 1000" and n: "n = 1000 - Suc i" by simp_all
  define m where "m = 1000 - Suc i"
  have k: "1000 - i = Suc m" using lt by (simp add: m_def)
  have u: "[i..<1000] = i # [Suc i..<1000]" using lt by (simp add: upt_conv_Cons)
  show ?case
    apply (subst vector_race_loop.simps)
    apply (simp only: lt if_True push_back_eq prod.case sum.case)
    apply (subst Suc.hyps(1) [OF n])
    using lt apply simp
    unfolding m_def [symmetric] k u
    by simp
qed









subsection \<open>The threading examples\<close>

lemmas thread_ops = step_thread_def seq_def set_thread_def load_shared_counter_def
  store_shared_counter_def load_shared_vec_def write_back_vec_def log_def int_incr_def



lemma step_thread_load_counter:
  "u < length (threads s) \<Longrightarrow> threads s ! u = Incrementing i None \<Longrightarrow> i < 100000 \<Longrightarrow>
   step_thread u s =
     (Inr (), s\<lparr>trace := trace s @ [Load (Worker u) Shared_counter],
                threads := (threads s)[u := Incrementing i (Some (shared_counter s))]\<rparr>)"
  by (simp add: thread_ops)

lemma step_thread_exit_counter:
  "u < length (threads s) \<Longrightarrow> threads s ! u = Incrementing i None \<Longrightarrow> \<not> i < 100000 \<Longrightarrow>
   step_thread u s = (Inr (), s\<lparr>threads := (threads s)[u := Finished]\<rparr>)"
  by (simp add: thread_ops)

lemma step_thread_store_counter:
  "u < length (threads s) \<Longrightarrow> threads s ! u = Incrementing i (Some v) \<Longrightarrow>
   wraparound s \<or> v \<noteq> INT_MAX \<Longrightarrow>
   step_thread u s =
     (Inr (), s\<lparr>shared_counter := v + 1,
                trace := trace s @ [Store (Worker u) Shared_counter],
                threads := (threads s)[u := Incrementing (Suc i) None]\<rparr>)"
  by (auto simp add: thread_ops)


lemma step_thread_load_vec:
  "u < length (threads s) \<Longrightarrow> threads s ! u = Appending i None \<Longrightarrow> i < 1000 \<Longrightarrow>
   step_thread u s =
     (Inr (), s\<lparr>trace := trace s @ [Load (Worker u) Shared_vec],
                threads := (threads s)[u := Appending i (Some (shared_vec s))]\<rparr>)"
  by (simp add: thread_ops)

lemma step_thread_exit_vec:
  "u < length (threads s) \<Longrightarrow> threads s ! u = Appending i None \<Longrightarrow> \<not> i < 1000 \<Longrightarrow>
   step_thread u s = (Inr (), s\<lparr>threads := (threads s)[u := Finished]\<rparr>)"
  by (simp add: thread_ops)

lemma step_thread_store_vec:
  "u < length (threads s) \<Longrightarrow> threads s ! u = Appending i (Some vs) \<Longrightarrow> shared_vec s = vs \<Longrightarrow>
   step_thread u s =
     (Inr (), s\<lparr>shared_vec := vs @ [of_nat i],
                trace := trace s @ [Store (Worker u) Shared_vec],
                threads := (threads s)[u := Appending (Suc i) None]\<rparr>)"
  by (simp add: thread_ops)








declare await.simps [simp del]



























text \<open>A thread that is left alone does what one call of its body does.\<close>

lemma await_done:
  "length (threads s) \<le> t \<or> threads s ! t = Finished \<Longrightarrow> await t s = (Inr (), s)"
  by (subst await.simps) simp

lemma await_alone_step:
  "t < length (threads s) \<Longrightarrow> threads s ! t \<noteq> Finished \<Longrightarrow> sched s = [] \<Longrightarrow>
   step_thread t s = (Inr (), s') \<Longrightarrow> await t s = await t s'"
  by (subst await.simps) simp

lemma await_alone_counter:
  assumes "sched s = []" "t < length (threads s)" "threads s ! t = Incrementing i None" "i \<le> 100000"
    and "wraparound s \<or> sint (shared_counter s) + int (100000 - i) \<le> 2147483647"
  shows "await t s =
     (Inr (), s\<lparr>shared_counter := shared_counter s + of_nat (100000 - i),
                threads := (threads s)[t := Finished],
                trace := trace s @ concat (replicate (100000 - i)
                  [Load (Worker t) Shared_counter, Store (Worker t) Shared_counter])\<rparr>)"
  using assms
proof (induction "100000 - i" arbitrary: i s)
  case 0
  then have i: "\<not> i < 100000" by simp
  let ?s' = "s\<lparr>threads := (threads s)[t := Finished]\<rparr>"
  have "await t s = await t ?s'"
    using 0 i by (intro await_alone_step) (simp_all add: step_thread_exit_counter)
  also have "\<dots> = (Inr (), ?s')"
    using 0 by (intro await_done) simp
  finally show ?case using 0 by simp
next
  case (Suc n)
  from Suc.hyps(2) have lt: "i < 100000" and n: "n = 100000 - Suc i" by simp_all
  let ?c = "shared_counter s"
  let ?s1 = "s\<lparr>trace := trace s @ [Load (Worker t) Shared_counter],
                threads := (threads s)[t := Incrementing i (Some ?c)]\<rparr>"
  let ?s2 = "?s1\<lparr>shared_counter := ?c + 1,
                trace := trace ?s1 @ [Store (Worker t) Shared_counter],
                threads := (threads ?s1)[t := Incrementing (Suc i) None]\<rparr>"
  have ok: "wraparound s \<or> sint ?c < 2147483647" using Suc.prems(5) lt by auto
  then have nf: "wraparound ?s1 \<or> ?c \<noteq> INT_MAX" using sint_succ(1) [of ?c] by auto
  have "await t s = await t ?s1"
    using Suc.prems lt by (intro await_alone_step) (simp_all add: step_thread_load_counter)
  also have "\<dots> = await t ?s2"
    using Suc.prems nf by (intro await_alone_step step_thread_store_counter) simp_all
  also have "\<dots> = (Inr (), ?s2\<lparr>shared_counter := shared_counter ?s2 + of_nat (100000 - Suc i),
                threads := (threads ?s2)[t := Finished],
                trace := trace ?s2 @ concat (replicate (100000 - Suc i)
                  [Load (Worker t) Shared_counter, Store (Worker t) Shared_counter])\<rparr>)"
  proof (rule Suc.hyps(1) [OF n])
    show "wraparound ?s2 \<or> sint (shared_counter ?s2) + int (100000 - Suc i) \<le> 2147483647"
    proof (cases "wraparound s")
      case True then show ?thesis by simp
    next
      case False
      with Suc.prems(5) lt have b: "sint ?c + int (100000 - i) \<le> 2147483647" by simp
      with lt have "sint ?c < 2147483647" by simp
      from sint_succ(2) [OF this] b lt show ?thesis by simp
    qed
  qed (use Suc.prems lt in simp_all)
  finally have *: "await t s = (Inr (), ?s2\<lparr>shared_counter := shared_counter ?s2 + of_nat (100000 - Suc i),
                threads := (threads ?s2)[t := Finished],
                trace := trace ?s2 @ concat (replicate (100000 - Suc i)
                  [Load (Worker t) Shared_counter, Store (Worker t) Shared_counter])\<rparr>)" .
  define m where "m = 100000 - Suc i"
  have k: "100000 - i = Suc m" using lt by (simp add: m_def)
  show ?case
    unfolding * m_def [symmetric] k by simp
qed

lemma await_alone_vec:
  assumes "sched s = []" "t < length (threads s)" "threads s ! t = Appending i None" "i \<le> 1000"
  shows "await t s =
     (Inr (), s\<lparr>shared_vec := shared_vec s @ map of_nat [i..<1000],
                threads := (threads s)[t := Finished],
                trace := trace s @ concat (replicate (1000 - i)
                  [Load (Worker t) Shared_vec, Store (Worker t) Shared_vec])\<rparr>)"
  using assms
proof (induction "1000 - i" arbitrary: i s)
  case 0
  then have i: "\<not> i < 1000" by simp
  let ?s' = "s\<lparr>threads := (threads s)[t := Finished]\<rparr>"
  have "await t s = await t ?s'"
    using 0 i by (intro await_alone_step) (simp_all add: step_thread_exit_vec)
  also have "\<dots> = (Inr (), ?s')"
    using 0 by (intro await_done) simp
  finally show ?case using 0 by simp
next
  case (Suc n)
  from Suc.hyps(2) have lt: "i < 1000" and n: "n = 1000 - Suc i" by simp_all
  let ?s1 = "s\<lparr>trace := trace s @ [Load (Worker t) Shared_vec],
                threads := (threads s)[t := Appending i (Some (shared_vec s))]\<rparr>"
  let ?s2 = "?s1\<lparr>shared_vec := shared_vec s @ [of_nat i],
                trace := trace ?s1 @ [Store (Worker t) Shared_vec],
                threads := (threads ?s1)[t := Appending (Suc i) None]\<rparr>"
  have "await t s = await t ?s1"
    using Suc.prems lt by (intro await_alone_step) (simp_all add: step_thread_load_vec)
  also have "\<dots> = await t ?s2"
    using Suc.prems by (intro await_alone_step step_thread_store_vec) simp_all
  also have "\<dots> = (Inr (), ?s2\<lparr>shared_vec := shared_vec ?s2 @ map of_nat [Suc i..<1000],
                threads := (threads ?s2)[t := Finished],
                trace := trace ?s2 @ concat (replicate (1000 - Suc i)
                  [Load (Worker t) Shared_vec, Store (Worker t) Shared_vec])\<rparr>)"
    by (rule Suc.hyps(1) [OF n]) (use Suc.prems lt in simp_all)
  finally have *: "await t s = (Inr (), ?s2\<lparr>shared_vec := shared_vec ?s2 @ map of_nat [Suc i..<1000],
                threads := (threads ?s2)[t := Finished],
                trace := trace ?s2 @ concat (replicate (1000 - Suc i)
                  [Load (Worker t) Shared_vec, Store (Worker t) Shared_vec])\<rparr>)" .
  define m where "m = 1000 - Suc i"
  have k: "1000 - i = Suc m" using lt by (simp add: m_def)
  have u: "[i..<1000] = i # [Suc i..<1000]" using lt by (simp add: upt_conv_Cons)
  show ?case
    unfolding * m_def [symmetric] k u by simp
qed

lemma thread_alone_runs_data_race_increment:
  assumes "sched s = []" "t < length (threads s)" "threads s ! t = new_thread Data_race_increment"
    and "wraparound s \<or> sint (shared_counter s) \<le> 2147483647 - 100000"
  shows "await t s =
     (Inr (), (snd (tsan_data_race_increment (Worker t) s))\<lparr>threads := (threads s)[t := Finished]\<rparr>)"
  using assms await_alone_counter [where i = 0 and s = s and t = t]
    data_race_increment_loop_runs [of 0 s "Worker t"]
  by (simp add: new_thread_def tsan_data_race_increment_def)

lemma thread_alone_runs_vector_race:
  assumes "sched s = []" "t < length (threads s)" "threads s ! t = new_thread Vector_race"
  shows "await t s =
     (Inr (), (snd (tsan_vector_race (Worker t) s))\<lparr>threads := (threads s)[t := Finished]\<rparr>)"
  using assms await_alone_vec [where i = 0 and s = s and t = t]
    vector_race_loop_runs [of 0 "Worker t" s]
  by (simp add: new_thread_def tsan_vector_race_def)









end
